theory Spec2Isabelle
  imports Main "HOL-Library.Multiset"
begin

section \<open>JavaScript values read by the combat module\<close>

text \<open>
  The combat module (\<^verbatim>\<open>modules/combat.js\<close>) reads actor data through dynamically typed
  property accesses and guards them with \<^verbatim>\<open>typeof\<close>, truthiness and \<^verbatim>\<open>??\<close>. The values
  are therefore modelled with their JavaScript type tag. A number is an integer or
  \<^verbatim>\<open>NaN\<close> (which \<^verbatim>\<open>undefined + 1\<close> produces in the attribute calculation); an object is
  the list of its own properties.
\<close>

datatype jsnum = Num int | NaN

datatype jsval =
    JUndefined
  | JNull
  | JBool bool
  | JNumber jsnum
  | JString string
  | JObject "(string \<times> jsval) list"

type_synonym jsobj = "(string \<times> jsval) list"

datatype js_error = TypeError | Thrown string

fun typeof :: "jsval \<Rightarrow> string" where
  "typeof JUndefined = ''undefined''"
| "typeof JNull = ''object''"
| "typeof (JBool b) = ''boolean''"
| "typeof (JNumber x) = ''number''"
| "typeof (JString s) = ''string''"
| "typeof (JObject fs) = ''object''"

text \<open>\<^verbatim>\<open>!v\<close> is the negation of \<open>truthy v\<close>.\<close>

fun truthy :: "jsval \<Rightarrow> bool" where
  "truthy JUndefined = False"
| "truthy JNull = False"
| "truthy (JBool b) = b"
| "truthy (JNumber (Num n)) = (n \<noteq> 0)"
| "truthy (JNumber NaN) = False"
| "truthy (JString s) = (s \<noteq> [])"
| "truthy (JObject fs) = True"

text \<open>The values that \<^verbatim>\<open>?.\<close> and \<^verbatim>\<open>??\<close> treat as missing.\<close>

fun nullish :: "jsval \<Rightarrow> bool" where
  "nullish JUndefined = True"
| "nullish JNull = True"
| "nullish v = False"

text \<open>\<^verbatim>\<open>obj.k\<close> on an object: a property that is not there reads as \<^verbatim>\<open>undefined\<close>.\<close>

definition getprop :: "jsobj \<Rightarrow> string \<Rightarrow> jsval" where
  "getprop obj k = (case map_of obj k of None \<Rightarrow> JUndefined | Some v \<Rightarrow> v)"

text \<open>
  \<^verbatim>\<open>v.k\<close> on any value: reading a property of \<^verbatim>\<open>undefined\<close> or \<^verbatim>\<open>null\<close> throws a
  TypeError; a primitive has none of the properties the module asks for.
\<close>

fun member :: "jsval \<Rightarrow> string \<Rightarrow> js_error + jsval" where
  "member JUndefined k = Inl TypeError"
| "member JNull k = Inl TypeError"
| "member (JObject fs) k = Inr (getprop fs k)"
| "member v k = Inr JUndefined"

text \<open>\<^verbatim>\<open>a < b\<close> on two numbers: every comparison with \<^verbatim>\<open>NaN\<close> is false.\<close>

fun num_less :: "jsnum \<Rightarrow> jsnum \<Rightarrow> bool" where
  "num_less (Num a) (Num b) = (a < b)"
| "num_less a b = False"

section \<open>Documents of the host\<close>

text \<open>
  An actor has a \<^verbatim>\<open>type\<close> string and its \<^verbatim>\<open>system\<close> data object. A combatant has its
  \<^verbatim>\<open>id\<close>, the actor it stands for (\<^verbatim>\<open>null\<close> when the actor cannot be found) and the stored
  \<^verbatim>\<open>initiative\<close>, a number or \<^verbatim>\<open>null\<close>. \<^verbatim>\<open>this.combatants.get(cid)\<close> is a lookup in a
  collection keyed by id.
\<close>

record actor_doc =
  actor_type :: string
  system :: jsobj

record combatant =
  combatant_id :: string
  actor :: "actor_doc option"
  initiative :: "int option"

type_synonym combatants = "string \<rightharpoonup> combatant"

section \<open>\<^verbatim>\<open>BSHCombat._rollCombatantInitiatives\<close>\<close>

text \<open>
  Lines 44 to 49, the WIS value of a character. \<^verbatim>\<open>calculateAttributeValues(sys,
  BSHConfiguration)\<close> reads the background table of \<^verbatim>\<open>configuration.js\<close>; it is a parameter
  here: any function from the system data to the object it returns or to the error it throws.
  The result is a number: the last \<^theory_text>\<open>case\<close> is the test
  \<^verbatim>\<open>typeof attributes.wisdom === "number"\<close>, which only a \<open>JNumber\<close> passes.
\<close>

definition characterWis :: "(jsobj \<Rightarrow> js_error + jsobj) \<Rightarrow> jsobj \<Rightarrow> js_error + jsnum" where
  "characterWis calculateAttributeValues sys =
     (let calculated = getprop sys ''calculated'' in
      case (if \<not> truthy calculated
            then map_sum id JObject (calculateAttributeValues sys)
            else Inr calculated) of
        Inl e \<Rightarrow> Inl e
      | Inr attributes \<Rightarrow>
          (case member attributes ''wisdom'' of
             Inl e \<Rightarrow> Inl e
           | Inr wisdom \<Rightarrow>
               Inr (case wisdom of JNumber x \<Rightarrow> x | _ \<Rightarrow> Num 10)))"

text \<open>Line 52, \<^verbatim>\<open>sys.attributes?.wisdom ?? 10\<close>, the WIS value read for any other actor.\<close>

definition npcWis :: "jsobj \<Rightarrow> js_error + jsval" where
  "npcWis sys =
     (let attributes = getprop sys ''attributes'' in
      case (if nullish attributes then Inr JUndefined else member attributes ''wisdom'') of
        Inl e \<Rightarrow> Inl e
      | Inr wisdom \<Rightarrow> Inr (if nullish wisdom then JNumber (Num 10) else wisdom))"

text \<open>
  Lines 56 to 84: bucket, critical flag and initiative value of a character whose d20
  shows \<open>raw\<close>. The result is \<open>(bucket, critFlag, initiativeValue)\<close>.
\<close>

definition characterInitiative :: "int \<Rightarrow> jsnum \<Rightarrow> int \<times> jsval \<times> int" where
  "characterInitiative raw wisValue =
     (let (bucket, critFlag) =
            (if raw = 1 then (3, JString ''critSuccess'')
             else if raw = 20 then (1, JString ''critFailure'')
             else if num_less (Num raw) wisValue then (3, JNull)
             else (1, JNull));
          initiativeValue = bucket * 1000 - raw
      in (bucket, critFlag, initiativeValue))"

text \<open>Lines 56 to 59 and 96 to 100: a monster or NPC, no roll.\<close>

definition npcInitiative :: "int \<times> jsval \<times> int" where
  "npcInitiative =
     (let bucket = 2; critFlag = JNull; raw = 0;
          initiativeValue = bucket * 1000 - raw
      in (bucket, critFlag, initiativeValue))"

text \<open>Lines 103 to 107, the object pushed on \<^verbatim>\<open>updates\<close>.\<close>

definition update_entry :: "combatant \<Rightarrow> int \<Rightarrow> jsval \<Rightarrow> jsobj" where
  "update_entry c initiativeValue critFlag =
     [(''_id'', JString (combatant_id c)),
      (''initiative'', JNumber (Num initiativeValue)),
      (''flags.bsh.critInit'', critFlag)]"

text \<open>
  The body of the loop for one id. \<open>dice\<close> gives the total of the \<open>k\<close>-th \<^verbatim>\<open>1d20\<close> roll
  evaluated during the call and \<open>k\<close> counts the rolls evaluated so far. The result is the
  entry pushed (\<open>None\<close> after a \<^verbatim>\<open>continue\<close>) with the new count, or the error thrown.
  The source tests \<^verbatim>\<open>actor.type === "character"\<close> at line 43 and again at line 62, with
  nothing in between that changes it; the model branches once.
\<close>

definition rollCombatant ::
  "(jsobj \<Rightarrow> js_error + jsobj) \<Rightarrow> (nat \<Rightarrow> int) \<Rightarrow> combatants \<Rightarrow> nat \<Rightarrow> string
     \<Rightarrow> js_error + (jsobj option \<times> nat)" where
  "rollCombatant calc dice cs k cid =
     (case cs cid of
        None \<Rightarrow> Inr (None, k)
      | Some c \<Rightarrow>
          (case actor c of
             None \<Rightarrow> Inr (None, k)
           | Some a \<Rightarrow>
               (let sys = system a in
                if actor_type a = ''character'' then
                  (case characterWis calc sys of
                     Inl e \<Rightarrow> Inl e
                   | Inr wisValue \<Rightarrow>
                       (let raw = dice k;
                            (bucket, critFlag, initiativeValue) = characterInitiative raw wisValue
                        in Inr (Some (update_entry c initiativeValue critFlag), Suc k)))
                else
                  (case npcWis sys of
                     Inl e \<Rightarrow> Inl e
                   | Inr wisValue \<Rightarrow>
                       (let (bucket, critFlag, initiativeValue) = npcInitiative
                        in Inr (Some (update_entry c initiativeValue critFlag), k))))))"

text \<open>The \<^verbatim>\<open>for (const cid of ids)\<close> loop, with \<^verbatim>\<open>updates\<close> and the roll count as state.\<close>

fun rollLoop ::
  "(jsobj \<Rightarrow> js_error + jsobj) \<Rightarrow> (nat \<Rightarrow> int) \<Rightarrow> combatants \<Rightarrow> string list
     \<Rightarrow> jsobj list \<Rightarrow> nat \<Rightarrow> js_error + (jsobj list \<times> nat)" where
  "rollLoop calc dice cs [] updates k = Inr (updates, k)"
| "rollLoop calc dice cs (cid # ids) updates k =
     (case rollCombatant calc dice cs k cid of
        Inl e \<Rightarrow> Inl e
      | Inr (None, k') \<Rightarrow> rollLoop calc dice cs ids updates k'
      | Inr (Some u, k') \<Rightarrow> rollLoop calc dice cs ids (updates @ [u]) k')"

text \<open>
  What a call has done when it returns: the \<^verbatim>\<open>updateEmbeddedDocuments("Combatant", ...)\<close>
  calls it made, each with its list of updates, and the number of rolls it evaluated.
\<close>

record outcome =
  store_calls :: "jsobj list list"
  rolls_evaluated :: nat

definition rollCombatantInitiatives ::
  "(jsobj \<Rightarrow> js_error + jsobj) \<Rightarrow> (nat \<Rightarrow> int) \<Rightarrow> combatants \<Rightarrow> string list
     \<Rightarrow> js_error + outcome" where
  "rollCombatantInitiatives calc dice cs ids =
     (case rollLoop calc dice cs ids [] 0 of
        Inl e \<Rightarrow> Inl e
      | Inr (updates, k) \<Rightarrow>
          Inr \<lparr>store_calls = (if length updates \<noteq> 0 then [updates] else []),
               rolls_evaluated = k\<rparr>)"

text \<open>\<^verbatim>\<open>rollInitiative(ids, {prompt})\<close> ignores the prompt option.\<close>

definition rollInitiative ::
  "(jsobj \<Rightarrow> js_error + jsobj) \<Rightarrow> (nat \<Rightarrow> int) \<Rightarrow> combatants \<Rightarrow> string list \<Rightarrow> bool
     \<Rightarrow> js_error + outcome" where
  "rollInitiative calc dice cs ids prompt = rollCombatantInitiatives calc dice cs ids"

section \<open>The \<^verbatim>\<open>renderCombatTracker\<close> hook\<close>

text \<open>
  A row of the tracker is an \<^verbatim>\<open><li class="combatant">\<close>: its \<^verbatim>\<open>data-combatant-id\<close> when
  it has one, and the text of its \<^verbatim>\<open>span.combatant-initiative\<close> when it has that span.
\<close>

record tracker_row =
  dataset_combatantId :: "string option"
  initSpan :: "string option"

definition renderRow :: "combatants \<Rightarrow> tracker_row \<Rightarrow> tracker_row" where
  "renderRow cs row =
     (case dataset_combatantId row of
        None \<Rightarrow> row
      | Some combatantId \<Rightarrow>
          if combatantId = [] then row
          else
            (case cs combatantId of
               None \<Rightarrow> row
             | Some c \<Rightarrow>
                 (case initSpan row of
                    None \<Rightarrow> row
                  | Some old \<Rightarrow>
                      if (case actor c of None \<Rightarrow> False
                          | Some a \<Rightarrow> actor_type a = ''character'')
                      then
                        (let initValue = (case initiative c of None \<Rightarrow> 0 | Some v \<Rightarrow> v)
                         in row\<lparr>initSpan :=
                                  Some (if initValue > 2000 then ''Success'' else ''Failure'')\<rparr>)
                      else row\<lparr>initSpan := Some ''''\<rparr>)))"

text \<open>
  The hook returns at once when the tracker has no combat (or the combat no combatants);
  otherwise it visits every row.
\<close>

definition renderCombatTracker :: "combatants option \<Rightarrow> tracker_row list \<Rightarrow> tracker_row list" where
  "renderCombatTracker combat html =
     (case combat of None \<Rightarrow> html | Some cs \<Rightarrow> map (renderRow cs) html)"

section \<open>A sample encounter\<close>

text \<open>
  Concrete inputs on which the theorems below are evaluated. The dice engine
  \<open>dice_from totals\<close> shows the listed totals in order (and 20 afterwards);
  \<open>example_calc\<close> stands for an attribute calculation that copies the stored wisdom and,
  like \<^verbatim>\<open>calculateAttributeValues\<close>, throws when the system data has no \<^verbatim>\<open>attributes\<close>
  (as for \<open>pc4\<close>). The cached wisdom of \<open>pc5\<close> is \<^verbatim>\<open>NaN\<close>, which is what
  \<^verbatim>\<open>calculateCharacterData\<close> caches for a character with no stored wisdom and a story
  improvement of wisdom (\<^verbatim>\<open>undefined + 1\<close>). The combatant \<open>ghost\<close> has no actor, and no
  combatant has the id \<^verbatim>\<open>nobody\<close>.
\<close>

definition dice_from :: "int list \<Rightarrow> nat \<Rightarrow> int" where
  "dice_from totals k = (if k < length totals then totals ! k else 20)"

definition example_calc :: "jsobj \<Rightarrow> js_error + jsobj" where
  "example_calc sys =
     (case member (getprop sys ''attributes'') ''wisdom'' of
        Inl e \<Rightarrow> Inl e
      | Inr w \<Rightarrow> Inr [(''wisdom'', w)])"

definition pc1 :: combatant where
  "pc1 = \<lparr>combatant_id = ''pc1'',
          actor = Some \<lparr>actor_type = ''character'',
                        system = [(''calculated'', JObject [(''wisdom'', JNumber (Num 10))])]\<rparr>,
          initiative = None\<rparr>"

definition pc2 :: combatant where
  "pc2 = \<lparr>combatant_id = ''pc2'',
          actor = Some \<lparr>actor_type = ''character'',
                        system = [(''attributes'', JObject [(''wisdom'', JString ''12'')])]\<rparr>,
          initiative = Some 2995\<rparr>"

definition pc3 :: combatant where
  "pc3 = \<lparr>combatant_id = ''pc3'',
          actor = Some \<lparr>actor_type = ''character'',
                        system = [(''attributes'', JObject [(''wisdom'', JNumber (Num 14))])]\<rparr>,
          initiative = Some 985\<rparr>"

definition pc4 :: combatant where
  "pc4 = \<lparr>combatant_id = ''pc4'',
          actor = Some \<lparr>actor_type = ''character'', system = []\<rparr>,
          initiative = None\<rparr>"

definition pc5 :: combatant where
  "pc5 = \<lparr>combatant_id = ''pc5'',
          actor = Some \<lparr>actor_type = ''character'',
                        system = [(''calculated'', JObject [(''wisdom'', JNumber NaN)])]\<rparr>,
          initiative = None\<rparr>"

definition orc :: combatant where
  "orc = \<lparr>combatant_id = ''orc'',
          actor = Some \<lparr>actor_type = ''creature'',
                        system = [(''attributes'', JObject [(''wisdom'', JNumber (Num 7))])]\<rparr>,
          initiative = Some 2000\<rparr>"

definition ghost :: combatant where
  "ghost = \<lparr>combatant_id = ''ghost'', actor = None, initiative = Some 2000\<rparr>"

definition example_combatants :: combatants where
  "example_combatants =
     [''pc1'' \<mapsto> pc1, ''pc2'' \<mapsto> pc2, ''pc3'' \<mapsto> pc3, ''pc4'' \<mapsto> pc4,
      ''pc5'' \<mapsto> pc5, ''orc'' \<mapsto> orc, ''ghost'' \<mapsto> ghost]"

section \<open>Notions used to state the properties\<close>


definition is_character :: "combatants \<Rightarrow> string \<Rightarrow> bool" where
  "is_character cs cid =
     (case cs cid of
        None \<Rightarrow> False
      | Some c \<Rightarrow> (case actor c of None \<Rightarrow> False | Some a \<Rightarrow> actor_type a = ''character''))"

definition throws :: "(jsobj \<Rightarrow> js_error + jsobj) \<Rightarrow> combatants \<Rightarrow> string \<Rightarrow> bool" where
  "throws calc cs cid =
     (case cs cid of
        None \<Rightarrow> False
      | Some c \<Rightarrow>
          (case actor c of
             None \<Rightarrow> False
           | Some a \<Rightarrow> actor_type a = ''character'' \<and> isl (characterWis calc (system a))))"



text \<open>All entries a call has sent to the store (none when it threw).\<close>

definition emitted :: "js_error + outcome \<Rightarrow> jsobj list" where
  "emitted r = (case r of Inl e \<Rightarrow> [] | Inr out \<Rightarrow> concat (store_calls out))"

text \<open>
  An assignment of draws to the ids of a call is a list of pairs \<open>(cid, raw)\<close>, one per
  occurrence. \<open>draws\<close> lists the totals the dice engine has to show, in order, for every
  character to roll the draw assigned to it, and \<open>entry_alone\<close> is the entry of one
  occurrence when the loop body runs on it alone with that draw.
\<close>

definition draws :: "combatants \<Rightarrow> (string \<times> int) list \<Rightarrow> int list" where
  "draws cs ps = map snd (filter (\<lambda>p. is_character cs (fst p)) ps)"

definition entry_alone ::
  "(jsobj \<Rightarrow> js_error + jsobj) \<Rightarrow> combatants \<Rightarrow> string \<times> int \<Rightarrow> jsobj option" where
  "entry_alone calc cs p =
     (case rollCombatant calc (\<lambda>k. snd p) cs 0 (fst p) of
        Inl e \<Rightarrow> None
      | Inr (u, k) \<Rightarrow> u)"

section \<open>Basic facts\<close>

lemma typeof_number: "typeof v = ''number'' \<longleftrightarrow> (\<exists>x. v = JNumber x)"
  by (cases v) simp_all

lemma member_not_nullish: "\<not> nullish v \<Longrightarrow> \<exists>w. member v k = Inr w"
  by (cases v) simp_all

lemma truthy_not_nullish: "truthy v \<Longrightarrow> \<not> nullish v"
  by (cases v) simp_all

lemma npcWis_returns: "\<exists>w. npcWis sys = Inr w"
  using member_not_nullish [of "getprop sys ''attributes''" "''wisdom''"]
  by (auto simp: npcWis_def Let_def)

lemma rollCombatant_no_combatant:
  "cs cid = None \<Longrightarrow> rollCombatant calc dice cs k cid = Inr (None, k)"
  by (simp add: rollCombatant_def)

lemma rollCombatant_no_actor:
  "cs cid = Some c \<Longrightarrow> actor c = None \<Longrightarrow> rollCombatant calc dice cs k cid = Inr (None, k)"
  by (simp add: rollCombatant_def)

lemma rollCombatant_npc:
  "cs cid = Some c \<Longrightarrow> actor c = Some a \<Longrightarrow> actor_type a \<noteq> ''character'' \<Longrightarrow>
   rollCombatant calc dice cs k cid = Inr (Some (update_entry c 2000 JNull), k)"
  using npcWis_returns [of "system a"]
  by (auto simp: rollCombatant_def npcInitiative_def Let_def)

lemma rollCombatant_character:
  "cs cid = Some c \<Longrightarrow> actor c = Some a \<Longrightarrow> actor_type a = ''character'' \<Longrightarrow>
   characterWis calc (system a) = Inr w \<Longrightarrow>
   rollCombatant calc dice cs k cid =
     Inr (Some (update_entry c (snd (snd (characterInitiative (dice k) w)))
                               (fst (snd (characterInitiative (dice k) w)))), Suc k)"
  by (simp add: rollCombatant_def Let_def split: prod.splits)

lemma rollCombatant_character_throws:
  "cs cid = Some c \<Longrightarrow> actor c = Some a \<Longrightarrow> actor_type a = ''character'' \<Longrightarrow>
   characterWis calc (system a) = Inl e \<Longrightarrow>
   rollCombatant calc dice cs k cid = Inl e"
  by (simp add: rollCombatant_def Let_def)

section \<open>Initiative of a character\<close>

text \<open>
  Claim C1. A combatant whose actor is a character, with \<open>w\<close> its WIS value and \<open>raw\<close> the
  total of the one d20 rolled for it, gets one entry and uses up one roll. A raw 1 gives
  bucket 3 and the flag \<^verbatim>\<open>critSuccess\<close>; a raw 20 gives bucket 1 and \<^verbatim>\<open>critFailure\<close>;
  otherwise \<open>raw < w\<close> gives bucket 3 and \<open>raw \<ge> w\<close> bucket 1, with a \<^verbatim>\<open>null\<close> flag (a WIS
  that is \<^verbatim>\<open>NaN\<close> compares false and gives bucket 1). In every case the initiative is
  \<open>bucket * 1000 - raw\<close>.
\<close>

theorem character_roll_classification:
  assumes "cs cid = Some c" and "actor c = Some a" and "actor_type a = ''character''"
    and "characterWis calc (system a) = Inr w" and "raw = dice k"
  shows "\<exists>bucket critFlag.
           rollCombatant calc dice cs k cid =
             Inr (Some [(''_id'', JString (combatant_id c)),
                        (''initiative'', JNumber (Num (bucket * 1000 - raw))),
                        (''flags.bsh.critInit'', critFlag)], Suc k)
         \<and> characterInitiative raw w = (bucket, critFlag, bucket * 1000 - raw)
         \<and> (raw = 1 \<longrightarrow> bucket = 3 \<and> critFlag = JString ''critSuccess'')
         \<and> (raw = 20 \<longrightarrow> bucket = 1 \<and> critFlag = JString ''critFailure'')
         \<and> (raw \<noteq> 1 \<and> raw \<noteq> 20 \<longrightarrow>
              (\<forall>n. w = Num n \<and> raw < n \<longrightarrow> bucket = 3 \<and> critFlag = JNull)
            \<and> (\<forall>n. w = Num n \<and> raw \<ge> n \<longrightarrow> bucket = 1 \<and> critFlag = JNull)
            \<and> (w = NaN \<longrightarrow> bucket = 1 \<and> critFlag = JNull))"
proof -
  obtain bucket critFlag rank where ci: "characterInitiative raw w = (bucket, critFlag, rank)"
    by (cases "characterInitiative raw w") auto
  then have rank: "rank = bucket * 1000 - raw"
    by (auto simp: characterInitiative_def Let_def split: if_splits)
  have run: "rollCombatant calc dice cs k cid =
      Inr (Some (update_entry c rank critFlag), Suc k)"
    using rollCombatant_character [where cs = cs and cid = cid and c = c and a = a
        and calc = calc and w = w and dice = dice and k = k] assms ci
    by simp
  have cls: "(raw = 1 \<longrightarrow> bucket = 3 \<and> critFlag = JString ''critSuccess'')
         \<and> (raw = 20 \<longrightarrow> bucket = 1 \<and> critFlag = JString ''critFailure'')
         \<and> (raw \<noteq> 1 \<and> raw \<noteq> 20 \<longrightarrow>
              (\<forall>n. w = Num n \<and> raw < n \<longrightarrow> bucket = 3 \<and> critFlag = JNull)
            \<and> (\<forall>n. w = Num n \<and> raw \<ge> n \<longrightarrow> bucket = 1 \<and> critFlag = JNull)
            \<and> (w = NaN \<longrightarrow> bucket = 1 \<and> critFlag = JNull))"
    using ci by (auto simp: characterInitiative_def Let_def split: if_splits)
  show ?thesis
    using run ci rank cls unfolding update_entry_def by blast
qed

theorem character_roll_classification_witness:
  "example_combatants ''pc1'' = Some pc1
   \<and> actor pc1 = Some \<lparr>actor_type = ''character'',
                        system = [(''calculated'', JObject [(''wisdom'', JNumber (Num 10))])]\<rparr>
   \<and> characterWis example_calc [(''calculated'', JObject [(''wisdom'', JNumber (Num 10))])] = Inr (Num 10)
   \<and> dice_from [5, 15] 0 = 5
   \<and> rollCombatant example_calc (dice_from [5, 15]) example_combatants 0 ''pc1'' =
       Inr (Some [(''_id'', JString ''pc1''), (''initiative'', JNumber (Num 2995)),
                  (''flags.bsh.critInit'', JNull)], Suc 0)"
proof -
  let ?a = "\<lparr>actor_type = ''character'',
             system = [(''calculated'', JObject [(''wisdom'', JNumber (Num 10))])]\<rparr>"
  have h1: "example_combatants ''pc1'' = Some pc1" by (simp add: example_combatants_def)
  have h2: "actor pc1 = Some ?a" by (simp add: pc1_def)
  have h3: "actor_type ?a = ''character''" by simp
  have h4: "characterWis example_calc (system ?a) = Inr (Num 10)"
    by (simp add: characterWis_def getprop_def)
  have h5: "(5::int) = dice_from [5, 15] 0" by (simp add: dice_from_def)
  have id: "combatant_id pc1 = ''pc1''" by (simp add: pc1_def)
  from character_roll_classification [where cs = example_combatants and cid = "''pc1''"
      and c = pc1 and a = ?a and calc = example_calc and w = "Num 10" and raw = 5
      and dice = "dice_from [5, 15]" and k = 0, OF h1 h2 h3 h4 h5]
  obtain bucket critFlag where
    r: "rollCombatant example_calc (dice_from [5, 15]) example_combatants 0 ''pc1'' =
             Inr (Some [(''_id'', JString (combatant_id pc1)),
                        (''initiative'', JNumber (Num (bucket * 1000 - 5))),
                        (''flags.bsh.critInit'', critFlag)], Suc 0)"
    and b: "\<forall>n. Num 10 = Num n \<and> (5::int) < n \<longrightarrow> bucket = 3 \<and> critFlag = JNull"
    by auto
  from b have "bucket = 3 \<and> critFlag = JNull" by simp
  with r id h1 h2 h4 h5 show ?thesis by simp
qed

section \<open>The WIS value\<close>

lemma characterWis_cached:
  assumes "truthy (getprop sys ''calculated'')"
  shows "\<exists>v. member (getprop sys ''calculated'') ''wisdom'' = Inr v
           \<and> characterWis calc sys = Inr (case v of JNumber x \<Rightarrow> x | _ \<Rightarrow> Num 10)"
proof -
  from assms have "\<not> nullish (getprop sys ''calculated'')" by (rule truthy_not_nullish)
  then obtain v where "member (getprop sys ''calculated'') ''wisdom'' = Inr v"
    using member_not_nullish by blast
  then show ?thesis using assms by (simp add: characterWis_def Let_def)
qed

lemma characterWis_derived:
  assumes "\<not> truthy (getprop sys ''calculated'')"
  shows "characterWis calc sys =
           (case calc sys of Inl e \<Rightarrow> Inl e
            | Inr attributes \<Rightarrow>
                Inr (case getprop attributes ''wisdom'' of JNumber x \<Rightarrow> x | _ \<Rightarrow> Num 10))"
  using assms by (simp add: characterWis_def Let_def split: sum.splits)

lemma number_or_default:
  "(typeof v = ''number'' \<longrightarrow> v = JNumber (case v of JNumber x \<Rightarrow> x | _ \<Rightarrow> Num 10))
   \<and> (typeof v \<noteq> ''number'' \<longrightarrow> (case v of JNumber x \<Rightarrow> x | _ \<Rightarrow> Num 10) = Num 10)"
  by (cases v) simp_all

text \<open>
  For a character the WIS value compared with the roll comes from the cached
  \<^verbatim>\<open>system.calculated\<close> when that is there (truthy), otherwise from
  \<^verbatim>\<open>calculateAttributeValues\<close> (whose error, if it throws, ends the call); in both cases a
  \<^verbatim>\<open>wisdom\<close> whose type is not \<^verbatim>\<open>number\<close> is replaced by 10. For any other actor the stored
  \<^verbatim>\<open>system.attributes.wisdom\<close> is read, and 10 is taken when it is missing.
\<close>

lemma wis_value_resolution:
  assumes "cs cid = Some c" and "actor c = Some a"
  shows "(actor_type a = ''character'' \<and> truthy (getprop (system a) ''calculated'') \<longrightarrow>
           (\<exists>v w. member (getprop (system a) ''calculated'') ''wisdom'' = Inr v
                \<and> characterWis calc (system a) = Inr w
                \<and> (typeof v = ''number'' \<longrightarrow> v = JNumber w)
                \<and> (typeof v \<noteq> ''number'' \<longrightarrow> w = Num 10)
                \<and> rollCombatant calc dice cs k cid =
                    Inr (Some (update_entry c (snd (snd (characterInitiative (dice k) w)))
                                 (fst (snd (characterInitiative (dice k) w)))), Suc k)))
       \<and> (actor_type a = ''character'' \<and> \<not> truthy (getprop (system a) ''calculated'') \<longrightarrow>
           (\<forall>attributes. calc (system a) = Inr attributes \<longrightarrow>
              (\<exists>w. characterWis calc (system a) = Inr w
                \<and> (typeof (getprop attributes ''wisdom'') = ''number'' \<longrightarrow>
                      getprop attributes ''wisdom'' = JNumber w)
                \<and> (typeof (getprop attributes ''wisdom'') \<noteq> ''number'' \<longrightarrow> w = Num 10)
                \<and> rollCombatant calc dice cs k cid =
                    Inr (Some (update_entry c (snd (snd (characterInitiative (dice k) w)))
                                 (fst (snd (characterInitiative (dice k) w)))), Suc k)))
         \<and> (\<forall>e. calc (system a) = Inl e \<longrightarrow> rollCombatant calc dice cs k cid = Inl e))
       \<and> (actor_type a \<noteq> ''character'' \<longrightarrow>
           (nullish (getprop (system a) ''attributes'') \<longrightarrow>
              npcWis (system a) = Inr (JNumber (Num 10)))
         \<and> (\<forall>v. \<not> nullish (getprop (system a) ''attributes'')
                \<and> member (getprop (system a) ''attributes'') ''wisdom'' = Inr v \<longrightarrow>
              npcWis (system a) = Inr (if nullish v then JNumber (Num 10) else v)))"
proof (intro conjI impI allI)
  assume h: "actor_type a = ''character'' \<and> truthy (getprop (system a) ''calculated'')"
  then obtain v where v: "member (getprop (system a) ''calculated'') ''wisdom'' = Inr v"
    and w: "characterWis calc (system a) = Inr (case v of JNumber x \<Rightarrow> x | _ \<Rightarrow> Num 10)"
    using characterWis_cached [of "system a" calc] by blast
  let ?w = "case v of JNumber x \<Rightarrow> x | _ \<Rightarrow> Num 10"
  have "rollCombatant calc dice cs k cid =
          Inr (Some (update_entry c (snd (snd (characterInitiative (dice k) ?w)))
                       (fst (snd (characterInitiative (dice k) ?w)))), Suc k)"
    using rollCombatant_character [where cs = cs and cid = cid and c = c and a = a
        and calc = calc and w = ?w and dice = dice and k = k] assms h w by simp
  then show "\<exists>v w. member (getprop (system a) ''calculated'') ''wisdom'' = Inr v
                \<and> characterWis calc (system a) = Inr w
                \<and> (typeof v = ''number'' \<longrightarrow> v = JNumber w)
                \<and> (typeof v \<noteq> ''number'' \<longrightarrow> w = Num 10)
                \<and> rollCombatant calc dice cs k cid =
                    Inr (Some (update_entry c (snd (snd (characterInitiative (dice k) w)))
                                 (fst (snd (characterInitiative (dice k) w)))), Suc k)"
    using v w number_or_default [of v] by blast
next
  fix attributes
  assume h: "actor_type a = ''character'' \<and> \<not> truthy (getprop (system a) ''calculated'')"
    and c: "calc (system a) = Inr attributes"
  let ?v = "getprop attributes ''wisdom''"
  let ?w = "case ?v of JNumber x \<Rightarrow> x | _ \<Rightarrow> Num 10"
  have w: "characterWis calc (system a) = Inr ?w"
    using characterWis_derived [of "system a" calc] h c by simp
  have "rollCombatant calc dice cs k cid =
          Inr (Some (update_entry c (snd (snd (characterInitiative (dice k) ?w)))
                       (fst (snd (characterInitiative (dice k) ?w)))), Suc k)"
    using rollCombatant_character [where cs = cs and cid = cid and c = c and a = a
        and calc = calc and w = ?w and dice = dice and k = k] assms h w by simp
  then show "\<exists>w. characterWis calc (system a) = Inr w
                \<and> (typeof ?v = ''number'' \<longrightarrow> ?v = JNumber w)
                \<and> (typeof ?v \<noteq> ''number'' \<longrightarrow> w = Num 10)
                \<and> rollCombatant calc dice cs k cid =
                    Inr (Some (update_entry c (snd (snd (characterInitiative (dice k) w)))
                                 (fst (snd (characterInitiative (dice k) w)))), Suc k)"
    using w number_or_default [of ?v] by blast
next
  fix e
  assume h: "actor_type a = ''character'' \<and> \<not> truthy (getprop (system a) ''calculated'')"
    and c: "calc (system a) = Inl e"
  have "characterWis calc (system a) = Inl e"
    using characterWis_derived [of "system a" calc] h c by simp
  then show "rollCombatant calc dice cs k cid = Inl e"
    using rollCombatant_character_throws [where cs = cs and cid = cid and c = c and a = a
        and calc = calc and e = e and dice = dice and k = k] assms h by simp
next
  assume "nullish (getprop (system a) ''attributes'')"
  then show "npcWis (system a) = Inr (JNumber (Num 10))"
    by (simp add: npcWis_def Let_def)
next
  fix v
  assume "\<not> nullish (getprop (system a) ''attributes'')
            \<and> member (getprop (system a) ''attributes'') ''wisdom'' = Inr v"
  then show "npcWis (system a) = Inr (if nullish v then JNumber (Num 10) else v)"
    by (simp add: npcWis_def Let_def)
qed

lemma wis_value_resolution_example:
  "characterWis example_calc [(''calculated'', JObject [(''wisdom'', JNumber (Num 10))])] = Inr (Num 10)
   \<and> characterWis example_calc [(''attributes'', JObject [(''wisdom'', JString ''12'')])] = Inr (Num 10)
   \<and> characterWis example_calc [(''attributes'', JObject [(''wisdom'', JNumber (Num 14))])] = Inr (Num 14)
   \<and> npcWis [(''attributes'', JObject [(''wisdom'', JNumber (Num 7))])] = Inr (JNumber (Num 7))"
proof -
  let ?s1 = "[(''calculated'', JObject [(''wisdom'', JNumber (Num 10))])]"
  let ?s2 = "[(''attributes'', JObject [(''wisdom'', JString ''12'')])]"
  let ?s3 = "[(''attributes'', JObject [(''wisdom'', JNumber (Num 14))])]"
  let ?s4 = "[(''attributes'', JObject [(''wisdom'', JNumber (Num 7))])]"
  have cached: "truthy (getprop ?s1 ''calculated'')"
    and m1: "member (getprop ?s1 ''calculated'') ''wisdom'' = Inr (JNumber (Num 10))"
    and not_cached: "\<not> truthy (getprop ?s2 ''calculated'')" "\<not> truthy (getprop ?s3 ''calculated'')"
    and c2: "example_calc ?s2 = Inr [(''wisdom'', JString ''12'')]"
    and c3: "example_calc ?s3 = Inr [(''wisdom'', JNumber (Num 14))]"
    and m4: "\<not> nullish (getprop ?s4 ''attributes'')"
      "member (getprop ?s4 ''attributes'') ''wisdom'' = Inr (JNumber (Num 7))"
    by (simp_all add: getprop_def example_calc_def)
  have 1: "characterWis example_calc ?s1 = Inr (Num 10)"
    using wis_value_resolution [where cs = example_combatants and cid = "''pc1''" and c = pc1
        and a = "\<lparr>actor_type = ''character'', system = ?s1\<rparr>" and calc = example_calc
        and dice = "dice_from [5]" and k = 0] cached m1
    by (auto simp: example_combatants_def pc1_def)
  have 2: "characterWis example_calc ?s2 = Inr (Num 10)"
    using wis_value_resolution [where cs = example_combatants and cid = "''pc2''" and c = pc2
        and a = "\<lparr>actor_type = ''character'', system = ?s2\<rparr>" and calc = example_calc
        and dice = "dice_from [5]" and k = 0] not_cached c2
    by (auto simp: example_combatants_def pc2_def getprop_def)
  have 3: "characterWis example_calc ?s3 = Inr (Num 14)"
    using wis_value_resolution [where cs = example_combatants and cid = "''pc3''" and c = pc3
        and a = "\<lparr>actor_type = ''character'', system = ?s3\<rparr>" and calc = example_calc
        and dice = "dice_from [5]" and k = 0] not_cached c3
    by (auto simp: example_combatants_def pc3_def getprop_def)
  have 4: "npcWis ?s4 = Inr (JNumber (Num 7))"
    using wis_value_resolution [where cs = example_combatants and cid = "''orc''" and c = orc
        and a = "\<lparr>actor_type = ''creature'', system = ?s4\<rparr>" and calc = example_calc
        and dice = "dice_from [5]" and k = 0] m4
    by (auto simp: example_combatants_def orc_def)
  from 1 2 3 4 show ?thesis by blast
qed

text \<open>
  Claim C6. The WIS value of a character is the cached or the calculated wisdom, with 10 in
  its place whenever that wisdom is not a number. The test of line 49 is on the type, and
  \<^verbatim>\<open>NaN\<close> has the type \<^verbatim>\<open>number\<close>: the cached \<^verbatim>\<open>NaN\<close> of \<open>pc5\<close> is kept as the WIS value.
  Every comparison with it is false, so a die total of 2 puts \<open>pc5\<close> in bucket 1 with the
  initiative 998; with 10 in its place the same total gives bucket 3 and 2998.
\<close>

theorem nan_wisdom_kept:
  "actor pc5 = Some \<lparr>actor_type = ''character'',
                      system = [(''calculated'', JObject [(''wisdom'', JNumber NaN)])]\<rparr>
   \<and> typeof (JNumber NaN) = ''number''
   \<and> characterWis example_calc [(''calculated'', JObject [(''wisdom'', JNumber NaN)])] = Inr NaN
   \<and> rollCombatant example_calc (dice_from [2]) example_combatants 0 ''pc5'' =
       Inr (Some [(''_id'', JString ''pc5''), (''initiative'', JNumber (Num 998)),
                  (''flags.bsh.critInit'', JNull)], 1)
   \<and> characterInitiative 2 (Num 10) = (3, JNull, 2998)"
  by (simp add: rollCombatant_def example_combatants_def pc5_def characterWis_def getprop_def
      characterInitiative_def dice_from_def update_entry_def Let_def)

section \<open>The initiative values\<close>

lemma characterInitiative_cases:
  "characterInitiative raw w = (b, f, r) \<Longrightarrow>
     r = b * 1000 - raw \<and> (b = 3 \<or> b = 1) \<and> (raw = 20 \<longrightarrow> b = 1) \<and> (raw = 1 \<longrightarrow> b = 3)"
  by (auto simp: characterInitiative_def Let_def split: if_splits)

text \<open>
  With a die total between 1 and 20, every entry carries an initiative in one of three
  disjoint sets: 2981 to 2999 for a character in bucket 3, exactly 2000 for any other actor,
  980 to 999 for a character in bucket 1.
\<close>

lemma rank_intervals:
  assumes "cs cid = Some c" and "actor c = Some a"
    and "rollCombatant calc dice cs k cid = Inr (Some u, k')"
    and "1 \<le> dice k" and "dice k \<le> 20"
  shows "\<exists>rank. getprop u ''initiative'' = JNumber (Num rank)
           \<and> (actor_type a \<noteq> ''character'' \<longrightarrow> rank = 2000)
           \<and> (actor_type a = ''character'' \<longrightarrow>
                (\<exists>w bucket critFlag.
                    characterInitiative (dice k) w = (bucket, critFlag, rank)
                  \<and> (bucket = 3 \<and> 2981 \<le> rank \<and> rank \<le> 2999
                     \<or> bucket = 1 \<and> 980 \<le> rank \<and> rank \<le> 999))
              \<and> (dice k = 20 \<longrightarrow> rank = 980))"
proof (cases "actor_type a = ''character''")
  case False
  then have "rollCombatant calc dice cs k cid = Inr (Some (update_entry c 2000 JNull), k)"
    using rollCombatant_npc [where cs = cs and cid = cid and c = c and a = a] assms(1,2) by simp
  with assms(3) have "u = update_entry c 2000 JNull" by simp
  then have "getprop u ''initiative'' = JNumber (Num 2000)"
    by (simp add: update_entry_def getprop_def)
  with False show ?thesis by simp
next
  case True
  have "\<not> isl (characterWis calc (system a))"
  proof
    assume "isl (characterWis calc (system a))"
    then obtain e where "characterWis calc (system a) = Inl e" by (auto simp: isl_def)
    then have "rollCombatant calc dice cs k cid = Inl e"
      using rollCombatant_character_throws [where cs = cs and cid = cid and c = c and a = a
          and calc = calc and e = e] assms(1,2) True by simp
    with assms(3) show False by simp
  qed
  then obtain w where w: "characterWis calc (system a) = Inr w"
    by (cases "characterWis calc (system a)") auto
  obtain b f r where ci: "characterInitiative (dice k) w = (b, f, r)"
    by (cases "characterInitiative (dice k) w") auto
  have "rollCombatant calc dice cs k cid = Inr (Some (update_entry c r f), Suc k)"
    using rollCombatant_character [where cs = cs and cid = cid and c = c and a = a
        and calc = calc and w = w and dice = dice and k = k] assms(1,2) True w ci by simp
  with assms(3) have "u = update_entry c r f" by simp
  then have g: "getprop u ''initiative'' = JNumber (Num r)"
    by (simp add: update_entry_def getprop_def)
  from characterInitiative_cases [OF ci] assms(4,5)
  have "(b = 3 \<and> 2981 \<le> r \<and> r \<le> 2999 \<or> b = 1 \<and> 980 \<le> r \<and> r \<le> 999)
        \<and> (dice k = 20 \<longrightarrow> r = 980)"
    by auto
  with g ci True show ?thesis by blast
qed

lemma rank_intervals_example:
  "rollCombatant example_calc (dice_from [5, 20]) example_combatants 1 ''pc1'' =
      Inr (Some (update_entry pc1 980 (JString ''critFailure'')), 2)
   \<and> (1::int) \<le> dice_from [5, 20] 1 \<and> dice_from [5, 20] 1 \<le> 20
   \<and> getprop (update_entry pc1 980 (JString ''critFailure'')) ''initiative'' = JNumber (Num 980)"
proof -
  let ?a = "\<lparr>actor_type = ''character'',
             system = [(''calculated'', JObject [(''wisdom'', JNumber (Num 10))])]\<rparr>"
  let ?u = "update_entry pc1 980 (JString ''critFailure'')"
  have h1: "example_combatants ''pc1'' = Some pc1" by (simp add: example_combatants_def)
  have h2: "actor pc1 = Some ?a" by (simp add: pc1_def)
  have h3: "rollCombatant example_calc (dice_from [5, 20]) example_combatants 1 ''pc1'' =
      Inr (Some ?u, 2)"
    by (simp add: rollCombatant_def example_combatants_def pc1_def characterWis_def getprop_def
        characterInitiative_def dice_from_def Let_def)
  have h4: "(1::int) \<le> dice_from [5, 20] 1" and h5: "dice_from [5, 20] 1 \<le> 20"
    and d: "dice_from [5, 20] 1 = 20"
    by (simp_all add: dice_from_def)
  from rank_intervals [where cs = example_combatants and cid = "''pc1''" and c = pc1 and a = ?a
      and calc = example_calc and dice = "dice_from [5, 20]" and k = 1 and u = ?u and k' = 2,
      OF h1 h2 h3 h4 h5]
  obtain rank where "getprop ?u ''initiative'' = JNumber (Num rank)" and "rank = 980"
    using d by auto
  then show ?thesis using h3 h4 h5 by simp
qed

text \<open>
  Claim C2. The class comment (line 14) puts the characters of bucket 1 into 999 to 981,
  next to 2999 to 2981 for bucket 3 and 2000 for monsters. A character whose die shows 20
  gets \<open>1 * 1000 - 20 = 980\<close> at line 84, which is in none of the three sets.
\<close>

theorem slow_rank_at_twenty:
  "rollCombatant example_calc (dice_from [20]) example_combatants 0 ''pc1'' =
      Inr (Some [(''_id'', JString ''pc1''), (''initiative'', JNumber (Num 980)),
                 (''flags.bsh.critInit'', JString ''critFailure'')], 1)
   \<and> (980::int) \<notin> {2981..2999} \<union> {2000} \<union> {981..999}"
  by (simp add: rollCombatant_def example_combatants_def pc1_def characterWis_def getprop_def
      characterInitiative_def dice_from_def update_entry_def Let_def)

lemma bucket_of_rank:
  assumes "e = npcInitiative \<or> (\<exists>r w. 1 \<le> r \<and> r \<le> 20 \<and> e = characterInitiative r w)"
  shows "(fst e = 3 \<and> 2981 \<le> snd (snd e) \<and> snd (snd e) \<le> 2999)
       \<or> (fst e = 2 \<and> snd (snd e) = 2000)
       \<or> (fst e = 1 \<and> 980 \<le> snd (snd e) \<and> snd (snd e) \<le> 999)"
  using assms
proof
  assume "e = npcInitiative"
  then show ?thesis by (simp add: npcInitiative_def)
next
  assume "\<exists>r w. 1 \<le> r \<and> r \<le> 20 \<and> e = characterInitiative r w"
  then obtain r w where r: "1 \<le> r" "r \<le> 20" and e: "characterInitiative r w = e" by auto
  obtain b f i where t: "e = (b, f, i)" by (cases e)
  from characterInitiative_cases [of r w b f i] e t r show ?thesis by auto
qed

text \<open>
  Claim C4. A character in bucket 3 has a higher initiative than a monster or NPC, which has
  a higher initiative than a character in bucket 1; of two characters in the same bucket the
  one with the lower die total has the strictly higher initiative; the die total is
  \<open>bucket * 1000 - initiative\<close>, so different totals in a bucket give different initiatives.
  Hence any list of results that is sorted by decreasing initiative is sorted by decreasing
  bucket.
\<close>

theorem rank_order:
  assumes "1 \<le> r1" and "r1 \<le> 20" and "1 \<le> r2" and "r2 \<le> 20"
    and "characterInitiative r1 w1 = (b1, f1, i1)"
    and "characterInitiative r2 w2 = (b2, f2, i2)"
    and "npcInitiative = (b0, f0, i0)"
  shows "(b1 = 3 \<or> b1 = 1) \<and> b0 = 2
       \<and> (b1 = 3 \<longrightarrow> i1 > i0) \<and> (b1 = 1 \<longrightarrow> i0 > i1) \<and> (b1 = 3 \<and> b2 = 1 \<longrightarrow> i1 > i2)
       \<and> (b1 = b2 \<and> r1 < r2 \<longrightarrow> i1 > i2)
       \<and> r1 = b1 * 1000 - i1
       \<and> (b1 = b2 \<and> r1 \<noteq> r2 \<longrightarrow> i1 \<noteq> i2)
       \<and> ((\<forall>e \<in> set es. e = npcInitiative
                \<or> (\<exists>r w. 1 \<le> r \<and> r \<le> 20 \<and> e = characterInitiative r w))
            \<and> sorted_wrt (\<lambda>x y. snd (snd x) \<ge> snd (snd y)) es
            \<longrightarrow> sorted_wrt (\<lambda>x y. fst x \<ge> fst y) es)"
proof -
  have n: "b0 = 2 \<and> i0 = 2000" using assms(7) by (simp add: npcInitiative_def)
  from characterInitiative_cases [OF assms(5)] characterInitiative_cases [OF assms(6)] n assms(1-4)
  have pair: "(b1 = 3 \<or> b1 = 1) \<and> b0 = 2
       \<and> (b1 = 3 \<longrightarrow> i1 > i0) \<and> (b1 = 1 \<longrightarrow> i0 > i1) \<and> (b1 = 3 \<and> b2 = 1 \<longrightarrow> i1 > i2)
       \<and> (b1 = b2 \<and> r1 < r2 \<longrightarrow> i1 > i2)
       \<and> r1 = b1 * 1000 - i1
       \<and> (b1 = b2 \<and> r1 \<noteq> r2 \<longrightarrow> i1 \<noteq> i2)"
    by auto
  have sorted: "sorted_wrt (\<lambda>x y. fst x \<ge> fst y) es"
    if all: "\<forall>e \<in> set es. e = npcInitiative
                \<or> (\<exists>r w. 1 \<le> r \<and> r \<le> 20 \<and> e = characterInitiative r w)"
      and s: "sorted_wrt (\<lambda>x y. snd (snd x) \<ge> snd (snd y)) es"
  proof (rule sorted_wrt_mono_rel [OF _ s])
    fix x y assume x: "x \<in> set es" and y: "y \<in> set es" and le: "snd (snd y) \<le> snd (snd x)"
    from bucket_of_rank [of x] bucket_of_rank [of y] all x y le
    show "fst y \<le> fst x" by auto
  qed
  from pair sorted show ?thesis by blast
qed

theorem rank_order_witness:
  "characterInitiative 1 (Num 10) = (3, JString ''critSuccess'', 2999)
   \<and> characterInitiative 8 (Num 10) = (3, JNull, 2992)
   \<and> characterInitiative 15 (Num 10) = (1, JNull, 985)
   \<and> npcInitiative = (2, JNull, 2000)
   \<and> (2999::int) > 2992 \<and> (2999::int) > 2000 \<and> (1::int) = 3 * 1000 - 2999
   \<and> sorted_wrt (\<lambda>x y. snd (snd x) \<ge> snd (snd y))
        [characterInitiative 1 (Num 10), characterInitiative 8 (Num 10), npcInitiative,
         characterInitiative 15 (Num 10)]
   \<and> sorted_wrt (\<lambda>x y. fst x \<ge> fst y)
        [characterInitiative 1 (Num 10), characterInitiative 8 (Num 10), npcInitiative,
         characterInitiative 15 (Num 10)]"
proof -
  let ?es = "[characterInitiative 1 (Num 10), characterInitiative 8 (Num 10), npcInitiative,
         characterInitiative 15 (Num 10)]"
  have h5: "characterInitiative 1 (Num 10) = (3, JString ''critSuccess'', 2999)"
    and h6: "characterInitiative 8 (Num 10) = (3, JNull, 2992)"
    and h8: "characterInitiative 15 (Num 10) = (1, JNull, 985)"
    and h7: "npcInitiative = (2, JNull, 2000)"
    by (simp_all add: characterInitiative_def npcInitiative_def)
  have r: "(1::int) \<le> 1" "(1::int) \<le> 20" "(1::int) \<le> 8" "(8::int) \<le> 20" by simp_all
  have all: "\<forall>e \<in> set ?es. e = npcInitiative
                \<or> (\<exists>r w. 1 \<le> r \<and> r \<le> 20 \<and> e = characterInitiative r w)"
  proof -
    have "\<exists>r w. 1 \<le> r \<and> r \<le> 20 \<and> characterInitiative 1 (Num 10) = characterInitiative r w"
      by (rule exI [of _ 1], rule exI [of _ "Num 10"]) simp
    moreover have "\<exists>r w. 1 \<le> r \<and> r \<le> 20 \<and> characterInitiative 8 (Num 10) = characterInitiative r w"
      by (rule exI [of _ 8], rule exI [of _ "Num 10"]) simp
    moreover have "\<exists>r w. 1 \<le> r \<and> r \<le> 20 \<and> characterInitiative 15 (Num 10) = characterInitiative r w"
      by (rule exI [of _ 15], rule exI [of _ "Num 10"]) simp
    ultimately show ?thesis by simp
  qed
  have s: "sorted_wrt (\<lambda>x y. snd (snd x) \<ge> snd (snd y)) ?es"
    by (simp add: h5 h6 h7 h8)
  from rank_order [where ?r1.0 = 1 and ?r2.0 = 8 and es = ?es, OF r h5 h6 h7] all s
  have "sorted_wrt (\<lambda>x y. fst x \<ge> fst y) ?es" by blast
  with s h5 h6 h7 h8 show ?thesis by simp
qed

section \<open>Initiative of a monster or NPC\<close>

text \<open>
  Claim C3. A combatant whose actor is not a character gets the initiative 2000 and a
  \<^verbatim>\<open>null\<close> flag. No roll is evaluated (the roll count is unchanged), and neither the dice
  nor the actor's system data, the stored wisdom included, change the entry.
\<close>

theorem npc_fixed_initiative:
  assumes "cs cid = Some c" and "actor c = Some a" and "actor_type a \<noteq> ''character''"
  shows "rollCombatant calc dice cs k cid =
           Inr (Some [(''_id'', JString (combatant_id c)),
                      (''initiative'', JNumber (Num 2000)),
                      (''flags.bsh.critInit'', JNull)], k)
       \<and> rollCombatant calc' dice' (cs(cid \<mapsto> c\<lparr>actor := Some (a\<lparr>system := sys'\<rparr>)\<rparr>)) k cid =
           rollCombatant calc dice cs k cid"
proof -
  let ?c' = "c\<lparr>actor := Some (a\<lparr>system := sys'\<rparr>)\<rparr>"
  let ?cs' = "cs(cid \<mapsto> ?c')"
  have one: "rollCombatant calc dice cs k cid = Inr (Some (update_entry c 2000 JNull), k)"
    using assms by (rule rollCombatant_npc)
  have "rollCombatant calc' dice' ?cs' k cid = Inr (Some (update_entry ?c' 2000 JNull), k)"
    by (rule rollCombatant_npc [where a = "a\<lparr>system := sys'\<rparr>"]) (simp_all add: assms)
  then have two: "rollCombatant calc' dice' ?cs' k cid = Inr (Some (update_entry c 2000 JNull), k)"
    by (simp add: update_entry_def)
  show ?thesis using one two by (simp add: update_entry_def)
qed

theorem npc_fixed_initiative_witness:
  "example_combatants ''orc'' = Some orc
   \<and> actor orc = Some \<lparr>actor_type = ''creature'',
                        system = [(''attributes'', JObject [(''wisdom'', JNumber (Num 7))])]\<rparr>
   \<and> rollCombatant example_calc (dice_from [5, 15]) example_combatants 3 ''orc'' =
       Inr (Some [(''_id'', JString ''orc''), (''initiative'', JNumber (Num 2000)),
                  (''flags.bsh.critInit'', JNull)], 3)"
proof -
  let ?a = "\<lparr>actor_type = ''creature'',
             system = [(''attributes'', JObject [(''wisdom'', JNumber (Num 7))])]\<rparr>"
  have h1: "example_combatants ''orc'' = Some orc" by (simp add: example_combatants_def)
  have h2: "actor orc = Some ?a" by (simp add: orc_def)
  have h3: "actor_type ?a \<noteq> ''character''" by simp
  have id: "combatant_id orc = ''orc''" by (simp add: orc_def)
  from npc_fixed_initiative [where cs = example_combatants and cid = "''orc''" and c = orc
      and a = ?a and calc = example_calc and dice = "dice_from [5, 15]" and k = 3, OF h1 h2 h3]
  show ?thesis using h1 h2 id by simp
qed

section \<open>The loop over the ids\<close>


lemma rollCombatant_throws_iff:
  "isl (rollCombatant calc dice cs k cid) \<longleftrightarrow> throws calc cs cid"
proof (cases "cs cid")
  case None
  then show ?thesis by (simp add: rollCombatant_def throws_def)
next
  case (Some c)
  show ?thesis
  proof (cases "actor c")
    case None
    with Some show ?thesis by (simp add: rollCombatant_def throws_def)
  next
    case (Some a)
    note c = \<open>cs cid = Some c\<close> and a = Some
    show ?thesis
    proof (cases "actor_type a = ''character''")
      case False
      then show ?thesis
        using rollCombatant_npc [where cs = cs and cid = cid and c = c and a = a] c a
        by (simp add: throws_def)
    next
      case True
      then show ?thesis
        using c a
        by (cases "characterWis calc (system a)")
          (simp_all add: rollCombatant_def throws_def Let_def split: prod.splits)
    qed
  qed
qed



lemma rollLoop_throws:
  "\<exists>cid \<in> set ids. throws calc cs cid \<Longrightarrow> isl (rollLoop calc dice cs ids updates k)"
proof (induction ids arbitrary: updates k)
  case Nil
  then show ?case by simp
next
  case (Cons x xs)
  show ?case
  proof (cases "rollCombatant calc dice cs k x")
    case (Inl e)
    then show ?thesis by simp
  next
    case (Inr p)
    then have "\<not> throws calc cs x"
      using rollCombatant_throws_iff [of calc dice cs k x] by simp
    with Cons.prems have "\<exists>cid \<in> set xs. throws calc cs cid" by auto
    then show ?thesis using Inr Cons.IH by (cases p) (auto split: option.splits)
  qed
qed





lemma rollCombatant_alone:
  assumes "\<not> throws calc cs cid"
  shows "rollCombatant calc dice cs k cid =
           Inr (entry_alone calc cs (cid, dice k), if is_character cs cid then Suc k else k)"
proof (cases "cs cid")
  case None
  then show ?thesis by (simp add: rollCombatant_def entry_alone_def is_character_def)
next
  case (Some c)
  show ?thesis
  proof (cases "actor c")
    case None
    with Some show ?thesis by (simp add: rollCombatant_def entry_alone_def is_character_def)
  next
    case (Some a)
    note c = \<open>cs cid = Some c\<close> and a = Some
    show ?thesis
    proof (cases "actor_type a = ''character''")
      case False
      have "rollCombatant calc d cs j cid = Inr (Some (update_entry c 2000 JNull), j)" for d j
        using rollCombatant_npc [where cs = cs and cid = cid and c = c and a = a] c a False
        by simp
      then show ?thesis using False c a by (simp add: entry_alone_def is_character_def)
    next
      case True
      with assms c a obtain w where w: "characterWis calc (system a) = Inr w"
        by (cases "characterWis calc (system a)") (auto simp: throws_def)
      have "rollCombatant calc d cs j cid =
          Inr (Some (update_entry c (snd (snd (characterInitiative (d j) w)))
                       (fst (snd (characterInitiative (d j) w)))), Suc j)" for d j
        using rollCombatant_character [where cs = cs and cid = cid and c = c and a = a
            and calc = calc and w = w] c a True w by simp
      then show ?thesis using True c a by (simp add: entry_alone_def is_character_def)
    qed
  qed
qed

lemma rollLoop_assigned:
  assumes "\<forall>p \<in> set ps. \<not> throws calc cs (fst p)"
    and "\<forall>i < length (draws cs ps). dice (k + i) = draws cs ps ! i"
  shows "rollLoop calc dice cs (map fst ps) updates k =
           Inr (updates @ List.map_filter (entry_alone calc cs) ps, k + length (draws cs ps))"
  using assms
proof (induction ps arbitrary: updates k)
  case Nil
  then show ?case by (simp add: draws_def List.map_filter_simps)
next
  case (Cons p ps)
  obtain cid raw where p: "p = (cid, raw)" by (cases p)
  from Cons.prems(1) p have nx: "\<not> throws calc cs cid"
    and nxs: "\<forall>p \<in> set ps. \<not> throws calc cs (fst p)" by simp_all
  let ?k' = "if is_character cs cid then Suc k else k"
  have raw: "is_character cs cid \<Longrightarrow> dice k = raw"
    using Cons.prems(2) [rule_format, of 0] p by (simp add: draws_def)
  have rest: "\<forall>i < length (draws cs ps). dice (?k' + i) = draws cs ps ! i"
  proof (intro allI impI)
    fix i assume i: "i < length (draws cs ps)"
    show "dice (?k' + i) = draws cs ps ! i"
    proof (cases "is_character cs cid")
      case True
      then have "draws cs (p # ps) = raw # draws cs ps" using p by (simp add: draws_def)
      with Cons.prems(2) [rule_format, of "Suc i"] i True show ?thesis by simp
    next
      case False
      then have "draws cs (p # ps) = draws cs ps" using p by (simp add: draws_def)
      with Cons.prems(2) [rule_format, of i] i False show ?thesis by simp
    qed
  qed
  have len: "k + length (draws cs (p # ps)) = ?k' + length (draws cs ps)"
    using p by (simp add: draws_def)
  have same: "entry_alone calc cs (cid, dice k) = entry_alone calc cs (cid, raw)"
  proof (cases "is_character cs cid")
    case True
    with raw show ?thesis by simp
  next
    case False
    then show ?thesis
      by (auto simp: entry_alone_def rollCombatant_def is_character_def Let_def
          split: option.splits)
  qed
  have step: "rollCombatant calc dice cs k cid = Inr (entry_alone calc cs p, ?k')"
    using rollCombatant_alone [OF nx, of dice k] same p by simp
  show ?case
  proof (cases "entry_alone calc cs p")
    case None
    then have "rollLoop calc dice cs (map fst (p # ps)) updates k =
        rollLoop calc dice cs (map fst ps) updates ?k'"
      using step p by simp
    also have "\<dots> = Inr (updates @ List.map_filter (entry_alone calc cs) ps,
        ?k' + length (draws cs ps))"
      by (rule Cons.IH [OF nxs rest])
    finally show ?thesis using None len by (simp add: List.map_filter_simps)
  next
    case (Some u)
    then have "rollLoop calc dice cs (map fst (p # ps)) updates k =
        rollLoop calc dice cs (map fst ps) (updates @ [u]) ?k'"
      using step p by simp
    also have "\<dots> = Inr ((updates @ [u]) @ List.map_filter (entry_alone calc cs) ps,
        ?k' + length (draws cs ps))"
      by (rule Cons.IH [OF nxs rest])
    finally show ?thesis using Some len by (simp add: List.map_filter_simps)
  qed
qed

lemma dice_from_nth: "i < length totals \<Longrightarrow> dice_from totals i = totals ! i"
  by (simp add: dice_from_def)

lemma emitted_assigned:
  assumes "\<forall>p \<in> set ps. \<not> throws calc cs (fst p)"
  shows "emitted (rollCombatantInitiatives calc (dice_from (draws cs ps)) cs (map fst ps)) =
           List.map_filter (entry_alone calc cs) ps"
proof -
  have "\<forall>i < length (draws cs ps). dice_from (draws cs ps) (0 + i) = draws cs ps ! i"
    by (simp add: dice_from_nth)
  from rollLoop_assigned [OF assms this, of "[]"]
  show ?thesis by (simp add: rollCombatantInitiatives_def emitted_def)
qed

lemma emitted_throws:
  assumes "\<exists>cid \<in> set ids. throws calc cs cid"
  shows "emitted (rollCombatantInitiatives calc dice cs ids) = []"
  using rollLoop_throws [OF assms, of dice "[]" 0]
  by (auto simp: rollCombatantInitiatives_def emitted_def isl_def)

lemma mset_map_filter:
  "mset xs = mset ys \<Longrightarrow> mset (List.map_filter f xs) = mset (List.map_filter f ys)"
  by (simp add: List.map_filter_def)

lemmas example_eval =
  rollCombatantInitiatives_def rollCombatant_def example_combatants_def pc1_def pc2_def pc3_def
  pc4_def pc5_def orc_def ghost_def characterWis_def npcWis_def getprop_def example_calc_def
  characterInitiative_def npcInitiative_def dice_from_def update_entry_def Let_def






text \<open>
  Claim C8. With a fixed assignment of draws to the occurrences of the ids, permuting the
  ids gives the same entries (as a multiset). When nothing throws, the entries are those of
  the loop body run on each occurrence alone with its own draw, and such an entry depends on
  the combatants only through the combatant found for that id.
\<close>

theorem input_order_irrelevant:
  assumes "mset ps' = mset ps"
  shows "mset (emitted (rollCombatantInitiatives calc (dice_from (draws cs ps')) cs (map fst ps'))) =
         mset (emitted (rollCombatantInitiatives calc (dice_from (draws cs ps)) cs (map fst ps)))
       \<and> ((\<forall>p \<in> set ps. \<not> throws calc cs (fst p)) \<longrightarrow>
            emitted (rollCombatantInitiatives calc (dice_from (draws cs ps)) cs (map fst ps)) =
              List.map_filter (entry_alone calc cs) ps)
       \<and> (cs' (fst p) = cs (fst p) \<longrightarrow> entry_alone calc cs' p = entry_alone calc cs p)"
proof (intro conjI impI)
  from assms have s: "set ps' = set ps" by (rule mset_eq_setD)
  show "mset (emitted (rollCombatantInitiatives calc (dice_from (draws cs ps')) cs (map fst ps'))) =
         mset (emitted (rollCombatantInitiatives calc (dice_from (draws cs ps)) cs (map fst ps)))"
  proof (cases "\<forall>p \<in> set ps. \<not> throws calc cs (fst p)")
    case True
    with s have "\<forall>p \<in> set ps'. \<not> throws calc cs (fst p)" by simp
    then have "emitted (rollCombatantInitiatives calc (dice_from (draws cs ps')) cs (map fst ps')) =
        List.map_filter (entry_alone calc cs) ps'"
      by (rule emitted_assigned)
    moreover have "emitted (rollCombatantInitiatives calc (dice_from (draws cs ps)) cs (map fst ps)) =
        List.map_filter (entry_alone calc cs) ps"
      using True by (rule emitted_assigned)
    ultimately show ?thesis
      using mset_map_filter [OF assms, of "entry_alone calc cs"] by simp
  next
    case False
    then have "\<exists>cid \<in> set (map fst ps). throws calc cs cid" by auto
    moreover from False s have "\<exists>cid \<in> set (map fst ps'). throws calc cs cid" by auto
    ultimately show ?thesis
      using emitted_throws [of "map fst ps" calc cs] emitted_throws [of "map fst ps'" calc cs]
      by simp
  qed
next
  assume "\<forall>p \<in> set ps. \<not> throws calc cs (fst p)"
  then show "emitted (rollCombatantInitiatives calc (dice_from (draws cs ps)) cs (map fst ps)) =
              List.map_filter (entry_alone calc cs) ps"
    by (rule emitted_assigned)
next
  assume "cs' (fst p) = cs (fst p)"
  then have "rollCombatant calc d cs' 0 (fst p) = rollCombatant calc d cs 0 (fst p)" for d
    unfolding rollCombatant_def by (rule arg_cong)
  then show "entry_alone calc cs' p = entry_alone calc cs p"
    unfolding entry_alone_def by (rule arg_cong)
qed

theorem input_order_irrelevant_witness:
  "mset [(''pc3'', 15), (''pc1'', 5), (''orc'', 0)] = mset [(''pc1'', 5), (''orc'', 0), (''pc3'', 15::int)]
   \<and> draws example_combatants [(''pc1'', 5), (''orc'', 0), (''pc3'', 15)] = [5, 15]
   \<and> draws example_combatants [(''pc3'', 15), (''pc1'', 5), (''orc'', 0)] = [15, 5]
   \<and> emitted (rollCombatantInitiatives example_calc (dice_from [5, 15]) example_combatants
        [''pc1'', ''orc'', ''pc3'']) =
       [[(''_id'', JString ''pc1''), (''initiative'', JNumber (Num 2995)),
         (''flags.bsh.critInit'', JNull)],
        [(''_id'', JString ''orc''), (''initiative'', JNumber (Num 2000)),
         (''flags.bsh.critInit'', JNull)],
        [(''_id'', JString ''pc3''), (''initiative'', JNumber (Num 985)),
         (''flags.bsh.critInit'', JNull)]]
   \<and> mset (emitted (rollCombatantInitiatives example_calc (dice_from [15, 5]) example_combatants
        [''pc3'', ''pc1'', ''orc''])) =
     mset (emitted (rollCombatantInitiatives example_calc (dice_from [5, 15]) example_combatants
        [''pc1'', ''orc'', ''pc3'']))"
proof -
  let ?ps = "[(''pc1'', 5), (''orc'', 0), (''pc3'', 15::int)]"
  let ?ps' = "[(''pc3'', 15), (''pc1'', 5), (''orc'', 0::int)]"
  have h: "mset ?ps' = mset ?ps" by simp
  have d: "draws example_combatants ?ps = [5, 15]"
    and d': "draws example_combatants ?ps' = [15, 5]"
    by (simp_all add: draws_def is_character_def example_eval)
  have e: "emitted (rollCombatantInitiatives example_calc (dice_from [5, 15]) example_combatants
        [''pc1'', ''orc'', ''pc3'']) =
       [[(''_id'', JString ''pc1''), (''initiative'', JNumber (Num 2995)),
         (''flags.bsh.critInit'', JNull)],
        [(''_id'', JString ''orc''), (''initiative'', JNumber (Num 2000)),
         (''flags.bsh.critInit'', JNull)],
        [(''_id'', JString ''pc3''), (''initiative'', JNumber (Num 985)),
         (''flags.bsh.critInit'', JNull)]]"
    by (simp add: emitted_def example_eval)
  from input_order_irrelevant [OF h, of example_calc example_combatants]
  have "mset (emitted (rollCombatantInitiatives example_calc
            (dice_from (draws example_combatants ?ps')) example_combatants (map fst ?ps'))) =
         mset (emitted (rollCombatantInitiatives example_calc
            (dice_from (draws example_combatants ?ps)) example_combatants (map fst ?ps)))"
    by blast
  then have "mset (emitted (rollCombatantInitiatives example_calc (dice_from [15, 5])
        example_combatants [''pc3'', ''pc1'', ''orc''])) =
     mset (emitted (rollCombatantInitiatives example_calc (dice_from [5, 15]) example_combatants
        [''pc1'', ''orc'', ''pc3'']))"
    unfolding d d' by simp
  with h d d' e show ?thesis by blast
qed

section \<open>What the combat tracker shows\<close>

lemma renderRow_visited:
  assumes "dataset_combatantId row = Some cid" and "cid \<noteq> []" and "cs cid = Some c"
    and "initSpan row = Some old"
  shows "initSpan (renderRow cs row) =
           Some (if (case actor c of None \<Rightarrow> False | Some a \<Rightarrow> actor_type a = ''character'')
                 then (if (case initiative c of None \<Rightarrow> 0 | Some v \<Rightarrow> v) > 2000
                       then ''Success'' else ''Failure'')
                 else '''')"
  using assms by (simp add: renderRow_def Let_def)

lemma renderCombatTracker_nth:
  "i < length html \<Longrightarrow> renderCombatTracker (Some cs) html ! i = renderRow cs (html ! i)"
  by (simp add: renderCombatTracker_def)

text \<open>
  Claim C9. For a row whose combatant is a character with a stored initiative, the hook
  replaces the text of the initiative span by \<^verbatim>\<open>Success\<close> when the initiative is greater
  than 2000 and by \<^verbatim>\<open>Failure\<close> otherwise; for a combatant that is not a character it
  blanks the text, whatever the initiative.
\<close>

theorem tracker_label:
  assumes "i < length html" and "dataset_combatantId (html ! i) = Some cid" and "cid \<noteq> []"
    and "cs cid = Some c" and "initSpan (html ! i) = Some old"
  shows "(\<forall>a rank. actor c = Some a \<and> actor_type a = ''character'' \<and> initiative c = Some rank \<longrightarrow>
            initSpan (renderCombatTracker (Some cs) html ! i) =
              Some (if rank > 2000 then ''Success'' else ''Failure''))
       \<and> (\<forall>a. actor c = Some a \<and> actor_type a \<noteq> ''character'' \<longrightarrow>
            initSpan (renderCombatTracker (Some cs) html ! i) = Some '''')
       \<and> (actor c = None \<longrightarrow>
            initSpan (renderCombatTracker (Some cs) html ! i) = Some '''')"
  using renderRow_visited [where cs = cs, OF assms(2-5)] renderCombatTracker_nth [OF assms(1), of cs]
  by auto

theorem tracker_label_witness:
  "initSpan (renderCombatTracker (Some example_combatants)
       [\<lparr>dataset_combatantId = Some ''pc2'', initSpan = Some ''2995''\<rparr>,
        \<lparr>dataset_combatantId = Some ''pc3'', initSpan = Some ''985''\<rparr>,
        \<lparr>dataset_combatantId = Some ''orc'', initSpan = Some ''2000''\<rparr>] ! 0) = Some ''Success''
   \<and> initSpan (renderCombatTracker (Some example_combatants)
       [\<lparr>dataset_combatantId = Some ''pc2'', initSpan = Some ''2995''\<rparr>,
        \<lparr>dataset_combatantId = Some ''pc3'', initSpan = Some ''985''\<rparr>,
        \<lparr>dataset_combatantId = Some ''orc'', initSpan = Some ''2000''\<rparr>] ! 1) = Some ''Failure''
   \<and> initSpan (renderCombatTracker (Some example_combatants)
       [\<lparr>dataset_combatantId = Some ''pc2'', initSpan = Some ''2995''\<rparr>,
        \<lparr>dataset_combatantId = Some ''pc3'', initSpan = Some ''985''\<rparr>,
        \<lparr>dataset_combatantId = Some ''orc'', initSpan = Some ''2000''\<rparr>] ! 2) = Some ''''"
proof -
  let ?html = "[\<lparr>dataset_combatantId = Some ''pc2'', initSpan = Some ''2995''\<rparr>,
        \<lparr>dataset_combatantId = Some ''pc3'', initSpan = Some ''985''\<rparr>,
        \<lparr>dataset_combatantId = Some ''orc'', initSpan = Some ''2000''\<rparr>]"
  have a: "initSpan (renderCombatTracker (Some example_combatants) ?html ! 0) = Some ''Success''"
    using tracker_label [where i = 0 and html = ?html and cid = "''pc2''"
        and cs = example_combatants and c = pc2 and old = "''2995''"]
    by (simp add: example_combatants_def pc2_def)
  have b: "initSpan (renderCombatTracker (Some example_combatants) ?html ! 1) = Some ''Failure''"
    using tracker_label [where i = 1 and html = ?html and cid = "''pc3''"
        and cs = example_combatants and c = pc3 and old = "''985''"]
    by (simp add: example_combatants_def pc3_def)
  have c: "initSpan (renderCombatTracker (Some example_combatants) ?html ! 2) = Some ''''"
    using tracker_label [where i = 2 and html = ?html and cid = "''orc''"
        and cs = example_combatants and c = orc and old = "''2000''"]
    by (simp add: example_combatants_def orc_def)
  from a b c show ?thesis by blast
qed

text \<open>
  Claim C10. A character whose stored initiative is \<^verbatim>\<open>null\<close> is shown as \<^verbatim>\<open>Failure\<close>
  (the missing value counts as 0); the text of a character's row is never blanked.
\<close>

theorem tracker_unrolled_character:
  assumes "i < length html" and "dataset_combatantId (html ! i) = Some cid" and "cid \<noteq> []"
    and "cs cid = Some c" and "initSpan (html ! i) = Some old"
    and "actor c = Some a" and "actor_type a = ''character''"
  shows "(initiative c = None \<longrightarrow>
            initSpan (renderCombatTracker (Some cs) html ! i) = Some ''Failure'')
       \<and> initSpan (renderCombatTracker (Some cs) html ! i) \<noteq> Some ''''"
  using renderRow_visited [where cs = cs, OF assms(2-5)] renderCombatTracker_nth [OF assms(1), of cs] assms(6,7)
  by auto

theorem tracker_unrolled_character_witness:
  "example_combatants ''pc1'' = Some pc1 \<and> initiative pc1 = None
   \<and> initSpan (renderCombatTracker (Some example_combatants)
       [\<lparr>dataset_combatantId = Some ''pc1'', initSpan = Some ''''\<rparr>] ! 0) = Some ''Failure''"
proof -
  let ?html = "[\<lparr>dataset_combatantId = Some ''pc1'', initSpan = Some ''''\<rparr>]"
  let ?a = "\<lparr>actor_type = ''character'',
             system = [(''calculated'', JObject [(''wisdom'', JNumber (Num 10))])]\<rparr>"
  have h: "example_combatants ''pc1'' = Some pc1" "initiative pc1 = None" "actor pc1 = Some ?a"
    by (simp_all add: example_combatants_def pc1_def)
  show ?thesis
    using tracker_unrolled_character [where i = 0 and html = ?html and cid = "''pc1''"
        and cs = example_combatants and c = pc1 and old = "''''" and a = ?a] h
    by simp
qed

end
